theory Spec2Isabelle
  imports Complex_Main "HOL-Library.Word"
begin

section \<open>Python values and exceptions\<close>

text \<open>
  The gateway scanner of \<^verbatim>\<open>custom_components/ab_gateway/discovery.py\<close> works on
  dynamically typed values: what \<^verbatim>\<open>msgpack.unpackb\<close> and \<^verbatim>\<open>json.loads\<close>
  return. A \<^verbatim>\<open>bytes\<close> object is a list of 8-bit words, a \<^verbatim>\<open>str\<close> a list of
  characters (code points below 256), an \<^verbatim>\<open>int\<close> an unbounded integer. The keys of a
  decoded dictionary are \<^verbatim>\<open>str\<close> (JSON, msgpack) or \<^verbatim>\<open>bytes\<close> (msgpack): the
  default \<^verbatim>\<open>strict_map_key\<close> of \<^verbatim>\<open>unpackb\<close> admits no other key.
\<close>

type_synonym byte = "8 word"

datatype dkey = KStr string | KBytes "byte list"

datatype pyval =
    PNone
  | PBool bool
  | PInt int
  | PFloat real
  | PStr string
  | PBytes "byte list"
  | PList "pyval list"
  | PDict "(dkey \<times> pyval) list"

text \<open>
  The exceptions that the program raises, catches or lets through. \<^verbatim>\<open>ExtraData\<close>,
  \<^verbatim>\<open>UnicodeDecodeError\<close> and \<^verbatim>\<open>JSONDecodeError\<close> are subclasses of
  \<^verbatim>\<open>ValueError\<close>; \<open>OtherValueError\<close> stands for any further subclass (msgpack's
  \<^verbatim>\<open>FormatError\<close>, \<^verbatim>\<open>StackError\<close>), \<open>OtherException\<close> for any exception that is
  none of the above (msgpack's \<^verbatim>\<open>OutOfData\<close>). \<open>ParseError\<close> is the failure of the
  advertisement parser.
\<close>

datatype exn =
    ExtraData
  | UnicodeDecodeError
  | JSONDecodeError
  | ValueError
  | AttributeError
  | TypeError
  | IndexError
  | KeyError
  | NameError
  | AssertionError
  | TimeoutError
  | ParseError
  | OtherValueError string
  | OtherException string

fun is_ValueError :: "exn \<Rightarrow> bool" where
  "is_ValueError ExtraData = True"
| "is_ValueError UnicodeDecodeError = True"
| "is_ValueError JSONDecodeError = True"
| "is_ValueError ValueError = True"
| "is_ValueError (OtherValueError _) = True"
| "is_ValueError _ = False"

subsection \<open>Built-in operations the program calls\<close>

text \<open>\<^verbatim>\<open>bytes.hex()\<close>: two lowercase hexadecimal digits for each byte.\<close>

definition hexdigit :: "nat \<Rightarrow> char" where
  "hexdigit n = (if n < 10 then char_of (48 + n) else char_of (87 + n))"

definition byte_hex :: "byte \<Rightarrow> string" where
  "byte_hex b = [hexdigit (unat b div 16), hexdigit (unat b mod 16)]"

definition bytes_hex :: "byte list \<Rightarrow> string" where
  "bytes_hex bs = concat (map byte_hex bs)"

text \<open>
  \<^verbatim>\<open>str.lower()\<close> on code points below 256: the ASCII capitals and the Latin-1
  capitals (\<^verbatim>\<open>U+00C0\<close> to \<^verbatim>\<open>U+00DE\<close> without the multiplication sign) move up by 32.
  \<^verbatim>\<open>bytes.lower()\<close> changes the ASCII capitals only.
\<close>

definition lower_char :: "char \<Rightarrow> char" where
  "lower_char c =
     (let n = (of_char c :: nat)
      in if (65 \<le> n \<and> n \<le> 90) \<or> (192 \<le> n \<and> n \<le> 222 \<and> n \<noteq> 215)
         then char_of (n + 32) else c)"

definition lower_byte :: "byte \<Rightarrow> byte" where
  "lower_byte b = (if 65 \<le> unat b \<and> unat b \<le> 90 then b + 32 else b)"

fun py_lower :: "pyval \<Rightarrow> exn + pyval" where
  "py_lower (PStr s) = Inr (PStr (map lower_char s))"
| "py_lower (PBytes bs) = Inr (PBytes (map lower_byte bs))"
| "py_lower _ = Inl AttributeError"

text \<open>
  \<^verbatim>\<open>bytes.fromhex(s)\<close>: ASCII whitespace is skipped in front of a pair of digits;
  a character that is no hexadecimal digit, or a digit without its partner, raises
  \<^verbatim>\<open>ValueError\<close>; an argument that is no \<^verbatim>\<open>str\<close> raises \<^verbatim>\<open>TypeError\<close>.
\<close>

definition isspace :: "char \<Rightarrow> bool" where
  "isspace c = (let n = (of_char c :: nat) in n = 32 \<or> (9 \<le> n \<and> n \<le> 13))"

definition hexval :: "char \<Rightarrow> nat option" where
  "hexval c =
     (let n = (of_char c :: nat)
      in if 48 \<le> n \<and> n \<le> 57 then Some (n - 48)
         else if 97 \<le> n \<and> n \<le> 102 then Some (n - 87)
         else if 65 \<le> n \<and> n \<le> 70 then Some (n - 55)
         else None)"

fun fromhex_str :: "string \<Rightarrow> byte list option" where
  "fromhex_str [] = Some []"
| "fromhex_str [c] = (if isspace c then Some [] else None)"
| "fromhex_str (c # d # ds) =
     (if isspace c then fromhex_str (d # ds)
      else (case (hexval c, hexval d) of
              (Some h, Some l) \<Rightarrow>
                (case fromhex_str ds of
                   None \<Rightarrow> None
                 | Some bs \<Rightarrow> Some (word_of_nat (16 * h + l) # bs))
            | _ \<Rightarrow> None))"

fun bytes_fromhex :: "pyval \<Rightarrow> exn + pyval" where
  "bytes_fromhex (PStr s) =
     (case fromhex_str s of None \<Rightarrow> Inl ValueError | Some bs \<Rightarrow> Inr (PBytes bs))"
| "bytes_fromhex _ = Inl TypeError"

text \<open>\<^verbatim>\<open>data.get(key, default)\<close>: only a dictionary has the method.\<close>

fun py_get :: "pyval \<Rightarrow> string \<Rightarrow> pyval \<Rightarrow> exn + pyval" where
  "py_get (PDict kvs) k dflt =
     Inr (case map_of kvs (KStr k) of None \<Rightarrow> dflt | Some v \<Rightarrow> v)"
| "py_get _ k dflt = Inl AttributeError"

text \<open>
  What a \<^verbatim>\<open>for\<close> loop iterates over: the elements of a list, the characters of a
  string, the bytes of a \<^verbatim>\<open>bytes\<close> object as integers, the keys of a dictionary;
  anything else is not iterable.
\<close>

fun key_val :: "dkey \<Rightarrow> pyval" where
  "key_val (KStr s) = PStr s"
| "key_val (KBytes bs) = PBytes bs"

fun py_iter :: "pyval \<Rightarrow> exn + pyval list" where
  "py_iter (PList xs) = Inr xs"
| "py_iter (PStr s) = Inr (map (\<lambda>c. PStr [c]) s)"
| "py_iter (PBytes bs) = Inr (map (\<lambda>b. PInt (uint b)) bs)"
| "py_iter (PDict kvs) = Inr (map (\<lambda>kv. key_val (fst kv)) kvs)"
| "py_iter _ = Inl TypeError"

section \<open>Normalising a device entry\<close>

text \<open>
  Modelled from the spec: \<^verbatim>\<open>const.py\<close> is not among the sources; of its constants
  the normaliser uses \<^verbatim>\<open>INDEX_MAC\<close> and \<^verbatim>\<open>INDEX_ADV\<close>, which section 4.2 of the
  specification gives as index 1 (the MAC) and index 3 (the payload) of the list form.
\<close>

definition INDEX_MAC :: nat where
  "INDEX_MAC = 1"

definition INDEX_ADV :: nat where
  "INDEX_ADV = 3"

text \<open>
  \<^verbatim>\<open>convert_dev_to_dict(data)\<close> for a \<^verbatim>\<open>bytes\<close> entry. \<^verbatim>\<open>data[0]\<close> and
  \<^verbatim>\<open>data[7]\<close> raise \<^verbatim>\<open>IndexError\<close> out of range, the slices
  \<^verbatim>\<open>data[1:7]\<close> and \<^verbatim>\<open>data[8:]\<close> never do.
\<close>

definition convert_dev_to_dict :: "byte list \<Rightarrow> exn + pyval" where
  "convert_dev_to_dict data =
     (let adpayload_start = 8; rssi_index = 7
      in if \<not> 0 < length data then Inl IndexError
         else
           let adtype = PInt (uint (data ! 0));
               mac = PStr (bytes_hex (take 6 (drop 1 data)));
               adpayload = PBytes (drop adpayload_start data)
           in if \<not> rssi_index < length data then Inl IndexError
              else
                let rssi = PInt (uint (data ! rssi_index) - 256)
                in Inr (PList [adtype, mac, rssi, adpayload]))"

text \<open>
  The \<^verbatim>\<open>else\<close> branch of the loop body, for an entry \<^verbatim>\<open>dev\<close> that is no
  \<^verbatim>\<open>bytes\<close> object:
  \<^verbatim>\<open>dev[INDEX_MAC] = dev[INDEX_MAC].lower(); dev[INDEX_ADV] = bytes.fromhex(dev[3])\<close>.
  A dictionary has no integer key (\<^verbatim>\<open>KeyError\<close>), a string can be read but not
  assigned to, the other values cannot be subscripted.
\<close>

fun normalize_list_dev :: "pyval \<Rightarrow> exn + pyval" where
  "normalize_list_dev (PList xs) =
     (if \<not> INDEX_MAC < length xs then Inl IndexError
      else (case py_lower (xs ! INDEX_MAC) of
              Inl e \<Rightarrow> Inl e
            | Inr m \<Rightarrow>
                (let xs1 = xs[INDEX_MAC := m]
                 in if \<not> 3 < length xs1 then Inl IndexError
                    else (case bytes_fromhex (xs1 ! 3) of
                            Inl e \<Rightarrow> Inl e
                          | Inr adv \<Rightarrow>
                              if \<not> INDEX_ADV < length xs1 then Inl IndexError
                              else Inr (PList (xs1[INDEX_ADV := adv]))))))"
| "normalize_list_dev (PDict kvs) = Inl KeyError"
| "normalize_list_dev (PStr s) =
     (if \<not> INDEX_MAC < length s then Inl IndexError else Inl TypeError)"
| "normalize_list_dev (PBytes bs) =
     (if \<not> INDEX_MAC < length bs then Inl IndexError else Inl AttributeError)"
| "normalize_list_dev _ = Inl TypeError"

section \<open>The scanner and its collaborators\<close>

text \<open>
  A queue item is the dictionary \<^verbatim>\<open>{"gateway_id": ..., "device": ...}\<close> that the
  message path puts on the \<^verbatim>\<open>"adv"\<close> queue.
\<close>

record queue_item =
  gateway_id :: pyval
  device :: pyval

text \<open>
  What \<^verbatim>\<open>ble_parser.parse_data\<close> returns: a \<^verbatim>\<open>BLEDevice\<close> and an
  \<^verbatim>\<open>AdvertisementData\<close>, with the attributes that the scanner reads.
\<close>

record ble_device =
  dev_address :: string
  dev_name :: "string option"

record advertisement_data =
  adv_local_name :: "string option"
  adv_rssi :: int
  adv_manufacturer_data :: "(int \<times> byte list) list"
  adv_service_data :: "(string \<times> byte list) list"
  adv_service_uuids :: "string list"

text \<open>The \<^verbatim>\<open>BluetoothServiceInfoBleak\<close> handed to the callback of the host.\<close>

record service_info =
  info_name :: string
  info_address :: string
  info_rssi :: int
  info_manufacturer_data :: "(int \<times> byte list) list"
  info_service_data :: "(string \<times> byte list) list"
  info_service_uuids :: "string list"
  info_source :: string
  info_device :: ble_device
  info_advertisement :: advertisement_data
  info_connectable :: bool
  info_time :: real

datatype log_level = DEBUG | WARNING

text \<open>
  The collaborators that are not part of \<^verbatim>\<open>discovery.py\<close> are parameters: the two
  decoders, the advertisement parser (which returns its pair or raises), the monotonic
  clock (its \<open>n\<close>-th reading), Python's \<^verbatim>\<open>str()\<close> as used by the f-string and by
  \<^verbatim>\<open>async_start\<close>, and the constant \<^verbatim>\<open>DOMAIN\<close> of \<^verbatim>\<open>const.py\<close>.
\<close>

record env =
  unpackb :: "byte list \<Rightarrow> exn + pyval"
  loads :: "byte list \<Rightarrow> exn + pyval"
  parse_data :: "pyval \<Rightarrow> exn + (ble_device \<times> advertisement_data)"
  monotonic :: "nat \<Rightarrow> real"
  format_str :: "pyval \<Rightarrow> string"
  DOMAIN :: string

text \<open>
  The state that the two paths of \<^verbatim>\<open>ABGatewayScanner\<close> share or change: the
  \<^verbatim>\<open>"adv"\<close> queue, the two dictionaries keyed by device address, the calls of
  \<^verbatim>\<open>_new_info_callback\<close> made so far, the records written to the logger, and the
  number of clock readings taken.
\<close>

record scanner =
  queue :: "queue_item list"
  discovered_device_advertisement_datas :: "string \<rightharpoonup> ble_device \<times> advertisement_data"
  discovered_device_timestamps :: "string \<rightharpoonup> real"
  callback_calls :: "service_info list"
  logged :: "(log_level \<times> string) list"
  clock :: nat

definition log_record :: "log_level \<Rightarrow> string \<Rightarrow> scanner \<Rightarrow> scanner" where
  "log_record lvl msg s = s\<lparr>logged := logged s @ [(lvl, msg)]\<rparr>"

text \<open>
  Modelled from the spec: the \<^verbatim>\<open>DiscoveryQueue\<close> class behind
  \<^verbatim>\<open>hass.data[DOMAIN]["queues"]\<close> is not among the sources. By section 4.3 of the
  specification \<^verbatim>\<open>put\<close> never blocks the producer and there is one first-in
  first-out queue for the channel \<^verbatim>\<open>"adv"\<close>: the item goes to the back.
\<close>

definition queues_put :: "queue_item \<Rightarrow> scanner \<Rightarrow> scanner" where
  "queues_put item s = s\<lparr>queue := queue s @ [item]\<rparr>"

section \<open>The message path\<close>

text \<open>
  The body of the \<^verbatim>\<open>for\<close> loop of \<^verbatim>\<open>async_process_discovery_data\<close> for one
  entry: \<open>None\<close> when it ran through, \<open>Some e\<close> when it raised \<open>e\<close>.
\<close>

definition process_dev :: "pyval \<Rightarrow> pyval \<Rightarrow> scanner \<Rightarrow> exn option \<times> scanner" where
  "process_dev gw dev s =
     (case dev of
        PBytes bs \<Rightarrow>
          (case convert_dev_to_dict bs of
             Inl e \<Rightarrow> (Some e, s)
           | Inr d \<Rightarrow> (None, queues_put \<lparr>gateway_id = gw, device = d\<rparr> s))
      | _ \<Rightarrow>
          (case normalize_list_dev dev of
             Inl e \<Rightarrow> (Some e, s)
           | Inr d \<Rightarrow> (None, queues_put \<lparr>gateway_id = gw, device = d\<rparr> s)))"

fun process_devices :: "pyval \<Rightarrow> pyval list \<Rightarrow> scanner \<Rightarrow> exn option \<times> scanner" where
  "process_devices gw [] s = (None, s)"
| "process_devices gw (dev # devs) s =
     (case process_dev gw dev s of
        (Some e, s') \<Rightarrow> (Some e, s')
      | (None, s') \<Rightarrow> process_devices gw devs s')"

definition async_process_discovery_data :: "pyval \<Rightarrow> scanner \<Rightarrow> exn option \<times> scanner" where
  "async_process_discovery_data data s =
     (case py_get data ''mac'' PNone of
        Inl e \<Rightarrow> (Some e, s)
      | Inr gw \<Rightarrow>
          (case py_get data ''devices'' (PList []) of
             Inl e \<Rightarrow> (Some e, s)
           | Inr devices \<Rightarrow>
               (case py_iter devices of
                  Inl e \<Rightarrow> (Some e, s)
                | Inr devs \<Rightarrow> process_devices gw devs s)))"

text \<open>The body of the \<^verbatim>\<open>try\<close> statement of \<^verbatim>\<open>async_message_received\<close>.\<close>

definition try_unpack :: "env \<Rightarrow> byte list \<Rightarrow> scanner \<Rightarrow> exn option \<times> scanner" where
  "try_unpack E payload s =
     (case unpackb E payload of
        Inl e \<Rightarrow> (Some e, s)
      | Inr data \<Rightarrow> async_process_discovery_data data s)"

text \<open>
  The handler of \<^verbatim>\<open>ExtraData\<close>. It runs outside the \<^verbatim>\<open>try\<close> body, so what
  it raises is caught by none of the \<^verbatim>\<open>except\<close> clauses beside it.
\<close>

definition json_fallback :: "env \<Rightarrow> byte list \<Rightarrow> scanner \<Rightarrow> exn option \<times> scanner" where
  "json_fallback E payload s =
     (let s1 = log_record DEBUG ''Msgpack cannot decode data: %s, try json instead'' s
      in case loads E payload of
           Inl e \<Rightarrow> (Some e, s1)
         | Inr data \<Rightarrow>
             (case py_get data ''mac'' PNone of
                Inl e \<Rightarrow> (Some e, s1)
              | Inr m \<Rightarrow>
                  async_process_discovery_data data (log_record DEBUG ''JSON data: %s'' s1)))"

text \<open>
  \<^verbatim>\<open>async_message_received(msg)\<close>, with \<open>payload\<close> for \<^verbatim>\<open>msg.payload\<close>. The
  \<^verbatim>\<open>except\<close> clauses are tried in the order of the source. The last one evaluates
  the name \<^verbatim>\<open>payload\<close>, which no scope binds, so it raises \<^verbatim>\<open>NameError\<close> before the
  logger is called.
\<close>

definition async_message_received :: "env \<Rightarrow> byte list \<Rightarrow> scanner \<Rightarrow> exn option \<times> scanner" where
  "async_message_received E payload s =
     (case try_unpack E payload s of
        (None, s') \<Rightarrow> (None, s')
      | (Some e, s') \<Rightarrow>
          if e = ExtraData then json_fallback E payload s'
          else if e = UnicodeDecodeError
            then (None, log_record DEBUG ''Cannot decode data: %s'' s')
          else if is_ValueError e then (Some NameError, s')
          else (Some e, s'))"

section \<open>The processing path\<close>

text \<open>Python's \<^verbatim>\<open>a or b\<close> on optional strings: \<^verbatim>\<open>None\<close> and \<^verbatim>\<open>''\<close> are false.\<close>

definition truthy :: "string option \<Rightarrow> bool" where
  "truthy x = (case x of None \<Rightarrow> False | Some n \<Rightarrow> n \<noteq> [])"

definition name_or :: "string option \<Rightarrow> string option \<Rightarrow> string \<Rightarrow> string" where
  "name_or a b c = (if truthy a then the a else if truthy b then the b else c)"

text \<open>
  \<^verbatim>\<open>async_on_advertisement(data)\<close>. The parser runs first; what it raises leaves
  the method before the dictionaries are touched. The callback of the host is taken to
  return.
\<close>

definition async_on_advertisement :: "env \<Rightarrow> queue_item \<Rightarrow> scanner \<Rightarrow> exn option \<times> scanner" where
  "async_on_advertisement E data s =
     (case parse_data E (device data) of
        Inl e \<Rightarrow> (Some e, s)
      | Inr (dev, advertisement) \<Rightarrow>
          (let now = monotonic E (clock s);
               s1 = s\<lparr>clock := Suc (clock s)\<rparr>;
               s2 = s1\<lparr>discovered_device_advertisement_datas :=
                        (discovered_device_advertisement_datas s1)
                          (dev_address dev \<mapsto> (dev, advertisement))\<rparr>;
               s3 = s2\<lparr>discovered_device_timestamps :=
                        (discovered_device_timestamps s2)(dev_address dev \<mapsto> now)\<rparr>;
               info = \<lparr>info_name =
                         name_or (adv_local_name advertisement) (dev_name dev) (dev_address dev),
                       info_address = dev_address dev,
                       info_rssi = adv_rssi advertisement,
                       info_manufacturer_data = adv_manufacturer_data advertisement,
                       info_service_data = adv_service_data advertisement,
                       info_service_uuids = adv_service_uuids advertisement,
                       info_source = DOMAIN E @ ''_'' @ format_str E (gateway_id data),
                       info_device = dev,
                       info_advertisement = advertisement,
                       info_connectable = True,
                       info_time = now\<rparr>
           in (None, s3\<lparr>callback_calls := callback_calls s3 @ [info]\<rparr>)))"

text \<open>
  \<^verbatim>\<open>asyncio.wait_for(queue.get(), 1)\<close>: the item at the front, or
  \<^verbatim>\<open>TimeoutError\<close> after a second with nothing queued.
\<close>

definition wait_for_get :: "scanner \<Rightarrow> exn + (queue_item \<times> scanner)" where
  "wait_for_get s =
     (case queue s of
        [] \<Rightarrow> Inl TimeoutError
      | data # rest \<Rightarrow> Inr (data, s\<lparr>queue := rest\<rparr>))"

text \<open>
  One pass through the body of \<^verbatim>\<open>while True\<close> in \<^verbatim>\<open>async_run\<close>: only
  \<^verbatim>\<open>asyncio.TimeoutError\<close> is caught.
\<close>

definition run_iteration :: "env \<Rightarrow> scanner \<Rightarrow> exn option \<times> scanner" where
  "run_iteration E s =
     (case (case wait_for_get s of
              Inl e \<Rightarrow> (Some e, s)
            | Inr (data, s') \<Rightarrow> async_on_advertisement E data s') of
        (None, s') \<Rightarrow> (None, s')
      | (Some e, s') \<Rightarrow> if e = TimeoutError then (None, s') else (Some e, s'))"

text \<open>
  The loop of \<^verbatim>\<open>async_run\<close> never returns; \<open>async_run E n s\<close> is the loop after
  at most \<open>n\<close> passes: \<open>(None, s')\<close> when it is still running, in state \<open>s'\<close>, and
  \<open>(Some e, s')\<close> when a pass raised \<open>e\<close>, which ends the task.
\<close>

fun async_run :: "env \<Rightarrow> nat \<Rightarrow> scanner \<Rightarrow> exn option \<times> scanner" where
  "async_run E 0 s = (None, s)"
| "async_run E (Suc n) s =
     (case run_iteration E s of
        (Some e, s') \<Rightarrow> (Some e, s')
      | (None, s') \<Rightarrow> async_run E n s')"

text \<open>
  \<^verbatim>\<open>async_start\<close>: what it hands to \<^verbatim>\<open>async_register_scanner\<close>, namely the
  source of the scanner and the \<^verbatim>\<open>connectable\<close> flag.
\<close>

record registration =
  reg_source :: string
  reg_connectable :: bool

definition async_start :: "env \<Rightarrow> pyval \<Rightarrow> exn + registration" where
  "async_start E unique_id =
     (if unique_id = PNone then Inl AssertionError
      else Inr \<lparr>reg_source = format_str E unique_id, reg_connectable = False\<rparr>)"

section \<open>Notions of the specification\<close>

text \<open>
  A lowercase hexadecimal digit is one of \<^verbatim>\<open>0\<close> to \<^verbatim>\<open>9\<close> and \<^verbatim>\<open>a\<close> to
  \<^verbatim>\<open>f\<close>; a hexadecimal digit may also be one of \<^verbatim>\<open>A\<close> to \<^verbatim>\<open>F\<close>.
\<close>

definition lower_hex_char :: "char \<Rightarrow> bool" where
  "lower_hex_char c =
     (let n = (of_char c :: nat) in (48 \<le> n \<and> n \<le> 57) \<or> (97 \<le> n \<and> n \<le> 102))"

definition hex_char :: "char \<Rightarrow> bool" where
  "hex_char c =
     (lower_hex_char c \<or> (65 \<le> (of_char c :: nat) \<and> (of_char c :: nat) \<le> 70))"

text \<open>
  \<open>hex_spelling txt bs\<close>: the text \<open>txt\<close> spells the bytes \<open>bs\<close> in hexadecimal,
  two digits a byte, each letter in either case.
\<close>

definition same_hex_digit :: "char \<Rightarrow> char \<Rightarrow> bool" where
  "same_hex_digit c d =
     (c = d \<or> (65 \<le> (of_char c :: nat) \<and> (of_char c :: nat) \<le> 70
               \<and> (of_char d :: nat) = of_char c + 32))"

definition hex_spelling :: "string \<Rightarrow> byte list \<Rightarrow> bool" where
  "hex_spelling txt bs = list_all2 same_hex_digit txt (bytes_hex bs)"

text \<open>
  The scanner as \<^verbatim>\<open>__init__\<close> leaves it: both dictionaries empty, and nothing
  queued, dispatched or logged yet.
\<close>

definition init_scanner :: scanner where
  "init_scanner =
     \<lparr>queue = [],
      discovered_device_advertisement_datas = Map.empty,
      discovered_device_timestamps = Map.empty,
      callback_calls = [],
      logged = [],
      clock = 0\<rparr>"

subsection \<open>A sample environment\<close>

text \<open>
  One report in its two encodings. \<open>sample_msgpack\<close> is the msgpack encoding and
  \<open>sample_json\<close> the JSON text of
  \<^verbatim>\<open>{"mac":"AA:BB:CC","devices":[[2,"112233445566",-56,"0102"]]}\<close>;
  \<open>broken_json\<close> is the two characters \<^verbatim>\<open>{x\<close>. On a text that starts with
  \<^verbatim>\<open>{\<close>, msgpack reads the integer 123 and finds bytes left over.
  \<open>broken_msgpack\<close> is the byte \<^verbatim>\<open>0xc1\<close>, which no msgpack value starts with.
\<close>

definition sample_report :: pyval where
  "sample_report =
     PDict [(KStr ''mac'', PStr ''AA:BB:CC''),
            (KStr ''devices'',
             PList [PList [PInt 2, PStr ''112233445566'', PInt (- 56), PStr ''0102'']])]"

definition sample_msgpack :: "byte list" where
  "sample_msgpack =
     [130, 163, 109, 97, 99, 168, 65, 65, 58, 66, 66, 58, 67, 67, 167, 100, 101, 118,
      105, 99, 101, 115, 145, 148, 2, 172, 49, 49, 50, 50, 51, 51, 52, 52, 53, 53, 54,
      54, 208, 200, 164, 48, 49, 48, 50]"

definition sample_json :: "byte list" where
  "sample_json =
     [123, 34, 109, 97, 99, 34, 58, 34, 65, 65, 58, 66, 66, 58, 67, 67, 34, 44, 34, 100,
      101, 118, 105, 99, 101, 115, 34, 58, 91, 91, 50, 44, 34, 49, 49, 50, 50, 51, 51,
      52, 52, 53, 53, 54, 54, 34, 44, 45, 53, 54, 44, 34, 48, 49, 48, 50, 34, 93, 93,
      125]"

definition broken_json :: "byte list" where
  "broken_json = [123, 120]"

definition broken_msgpack :: "byte list" where
  "broken_msgpack = [193]"

definition sample_unpackb :: "byte list \<Rightarrow> exn + pyval" where
  "sample_unpackb p =
     (if p = sample_msgpack then Inr sample_report
      else if p = sample_json \<or> p = broken_json then Inl ExtraData
      else if p = broken_msgpack then Inl (OtherValueError ''FormatError'')
      else Inl (OtherException ''OutOfData''))"

definition sample_loads :: "byte list \<Rightarrow> exn + pyval" where
  "sample_loads p = (if p = sample_json then Inr sample_report else Inl JSONDecodeError)"

text \<open>
  A parser that accepts a normalised record with a non-empty payload and fails on any
  other value.
\<close>

fun sample_parse :: "pyval \<Rightarrow> exn + (ble_device \<times> advertisement_data)" where
  "sample_parse (PList [PInt t, PStr mac, PInt r, PBytes (b # bs)]) =
     Inr (\<lparr>dev_address = mac, dev_name = Some (''tag '' @ mac)\<rparr>,
          \<lparr>adv_local_name = None, adv_rssi = r, adv_manufacturer_data = [(uint b, bs)],
           adv_service_data = [], adv_service_uuids = []\<rparr>)"
| "sample_parse _ = Inl ParseError"

fun sample_format :: "pyval \<Rightarrow> string" where
  "sample_format (PStr s) = s"
| "sample_format _ = ''None''"

definition sample_clock :: "nat \<Rightarrow> real" where
  "sample_clock n = 100 + real n"

definition sample_env :: env where
  "sample_env =
     \<lparr>unpackb = sample_unpackb, loads = sample_loads, parse_data = sample_parse,
      monotonic = sample_clock, format_str = sample_format, DOMAIN = ''ab_gateway''\<rparr>"

text \<open>Two good records of one device and a record that the sample parser rejects.\<close>

definition first_item :: queue_item where
  "first_item =
     \<lparr>gateway_id = PStr ''AA:BB:CC'',
      device = PList [PInt 2, PStr ''112233445566'', PInt (- 56), PBytes [1, 2]]\<rparr>"

definition second_item :: queue_item where
  "second_item =
     \<lparr>gateway_id = PStr ''AA:BB:CC'',
      device = PList [PInt 2, PStr ''112233445566'', PInt (- 60), PBytes [3, 4]]\<rparr>"

definition bad_item :: queue_item where
  "bad_item =
     \<lparr>gateway_id = PStr ''AA:BB:CC'',
      device = PList [PInt 2, PStr ''112233445566'', PInt (- 56), PBytes []]\<rparr>"

subsection \<open>Notions used in the proofs\<close>

text \<open>
  \<open>grows s s'\<close>: from \<open>s\<close> to \<open>s'\<close> no key of the two dictionaries is lost,
  and the calls of the callback are those of \<open>s\<close> followed by events that are all
  connectable.
\<close>

definition grows :: "scanner \<Rightarrow> scanner \<Rightarrow> bool" where
  "grows s s' =
     (dom (discovered_device_advertisement_datas s)
        \<subseteq> dom (discovered_device_advertisement_datas s')
      \<and> dom (discovered_device_timestamps s) \<subseteq> dom (discovered_device_timestamps s')
      \<and> (\<exists>new. callback_calls s' = callback_calls s @ new \<and> list_all info_connectable new))"

text \<open>\<open>same_cache s s'\<close>: only the queue and the log may differ.\<close>

definition same_cache :: "scanner \<Rightarrow> scanner \<Rightarrow> bool" where
  "same_cache s s' =
     (discovered_device_advertisement_datas s' = discovered_device_advertisement_datas s
      \<and> discovered_device_timestamps s' = discovered_device_timestamps s
      \<and> callback_calls s' = callback_calls s
      \<and> clock s' = clock s)"


text \<open>The event built for a queue item from what the parser returned, at a clock reading.\<close>

definition event_of :: "env \<Rightarrow> queue_item \<Rightarrow> ble_device \<Rightarrow> advertisement_data \<Rightarrow> real \<Rightarrow> service_info" where
  "event_of E data dev advertisement now =
     \<lparr>info_name = name_or (adv_local_name advertisement) (dev_name dev) (dev_address dev),
      info_address = dev_address dev,
      info_rssi = adv_rssi advertisement,
      info_manufacturer_data = adv_manufacturer_data advertisement,
      info_service_data = adv_service_data advertisement,
      info_service_uuids = adv_service_uuids advertisement,
      info_source = DOMAIN E @ ''_'' @ format_str E (gateway_id data),
      info_device = dev,
      info_advertisement = advertisement,
      info_connectable = True,
      info_time = now\<rparr>"

text \<open>The scanner with the two good records queued.\<close>

definition two_queued :: scanner where
  "two_queued = init_scanner\<lparr>queue := [first_item, second_item]\<rparr>"

section \<open>Hexadecimal text and bytes\<close>

lemma of_char_hexdigit:
  "n < 16 \<Longrightarrow> (of_char (hexdigit n) :: nat) = (if n < 10 then 48 + n else 87 + n)"
  by (simp add: hexdigit_def)

lemma hexval_hexdigit: "n < 16 \<Longrightarrow> hexval (hexdigit n) = Some n"
  by (simp add: hexval_def of_char_hexdigit Let_def)

lemma isspace_hexdigit: "n < 16 \<Longrightarrow> \<not> isspace (hexdigit n)"
  by (simp add: isspace_def of_char_hexdigit Let_def)

lemma lower_hex_hexdigit: "n < 16 \<Longrightarrow> lower_hex_char (hexdigit n)"
  by (simp add: lower_hex_char_def of_char_hexdigit Let_def)

lemma byte_nibbles: "unat (b :: byte) div 16 < 16" "unat (b :: byte) mod 16 < 16"
  using unsigned_less [of b, where 'a = nat] by simp_all

lemma length_bytes_hex: "length (bytes_hex bs) = 2 * length bs"
  by (induction bs) (simp_all add: bytes_hex_def byte_hex_def)

lemma bytes_hex_Cons: "bytes_hex (b # bs) = hexdigit (unat b div 16) # hexdigit (unat b mod 16) # bytes_hex bs"
  by (simp add: bytes_hex_def byte_hex_def)

lemma bytes_hex_Nil: "bytes_hex [] = []"
  by (simp add: bytes_hex_def)

lemma lower_hex_bytes_hex: "list_all lower_hex_char (bytes_hex bs)"
  by (induction bs) (simp_all add: bytes_hex_Cons bytes_hex_Nil lower_hex_hexdigit byte_nibbles)

lemma fromhex_bytes_hex: "fromhex_str (bytes_hex bs) = Some bs"
  by (induction bs)
     (simp_all add: bytes_hex_Cons bytes_hex_Nil hexval_hexdigit isspace_hexdigit byte_nibbles)

text \<open>Lowering a hexadecimal digit.\<close>

lemma lower_hex_lower_char: "hex_char c \<Longrightarrow> lower_hex_char (lower_char c)"
  by (auto simp: hex_char_def lower_hex_char_def lower_char_def Let_def)





lemma hex_spelling_self: "hex_spelling (bytes_hex bs) bs"
  by (simp add: hex_spelling_def same_hex_digit_def list_all2_same)



section \<open>Normalisation of the two wire shapes\<close>

lemma convert_dev_to_dict_ok:
  "7 < length data \<Longrightarrow>
   convert_dev_to_dict data =
     Inr (PList [PInt (uint (data ! 0)), PStr (bytes_hex (take 6 (drop 1 data))),
                 PInt (uint (data ! 7) - 256), PBytes (drop 8 data)])"
  by (auto simp: convert_dev_to_dict_def)

lemma normalize_list_dev_ok:
  "3 < length xs \<Longrightarrow> xs ! 1 = PStr m \<Longrightarrow> xs ! 3 = PStr h \<Longrightarrow> fromhex_str h = Some adv \<Longrightarrow>
   normalize_list_dev (PList xs) = Inr (PList (xs[1 := PStr (map lower_char m), 3 := PBytes adv]))"
  by (simp add: INDEX_MAC_def INDEX_ADV_def)

lemma normalize_list_dev_shape:
  "normalize_list_dev (PList xs) = Inr d \<Longrightarrow>
   \<exists>m adv. py_lower (xs ! 1) = Inr m \<and> bytes_fromhex (xs ! 3) = Inr adv \<and> 3 < length xs
     \<and> d = PList (xs[1 := m, 3 := adv])"
  by (auto simp: INDEX_MAC_def INDEX_ADV_def Let_def split: if_splits sum.splits)

text \<open>
  Claim C6. A binary entry of at least eight bytes is queued with the RSSI
  \<open>v - 256\<close>, where \<open>v\<close> is its byte 7 read as an unsigned number; a list entry
  that is queued keeps the value at index 2 as it came.
\<close>

theorem rssi_normalization:
  "(7 < length data \<longrightarrow>
      process_dev gw (PBytes data) s =
        (None, queues_put \<lparr>gateway_id = gw,
                 device = PList [PInt (uint (data ! 0)), PStr (bytes_hex (take 6 (drop 1 data))),
                                 PInt (uint (data ! 7) - 256), PBytes (drop 8 data)]\<rparr> s))
   \<and> (process_dev gw (PList xs) s = (None, s') \<longrightarrow>
        (\<exists>ys. s' = queues_put \<lparr>gateway_id = gw, device = PList ys\<rparr> s
              \<and> length ys = length xs \<and> 2 < length xs \<and> ys ! 2 = xs ! 2))"
proof (intro conjI impI)
  assume "7 < length data"
  then show "process_dev gw (PBytes data) s =
        (None, queues_put \<lparr>gateway_id = gw,
                 device = PList [PInt (uint (data ! 0)), PStr (bytes_hex (take 6 (drop 1 data))),
                                 PInt (uint (data ! 7) - 256), PBytes (drop 8 data)]\<rparr> s)"
    by (simp add: process_dev_def convert_dev_to_dict_ok)
next
  assume a: "process_dev gw (PList xs) s = (None, s')"
  then obtain d where d: "normalize_list_dev (PList xs) = Inr d"
    and s': "s' = queues_put \<lparr>gateway_id = gw, device = d\<rparr> s"
    by (auto simp: process_dev_def split: sum.splits)
  from normalize_list_dev_shape [OF d] obtain m adv where
    "3 < length xs" "d = PList (xs[1 := m, 3 := adv])" by blast
  then show "\<exists>ys. s' = queues_put \<lparr>gateway_id = gw, device = PList ys\<rparr> s
              \<and> length ys = length xs \<and> 2 < length xs \<and> ys ! 2 = xs ! 2"
    using s' by (intro exI [of _ "xs[1 := m, 3 := adv]"]) simp
qed

theorem rssi_normalization_witness:
  "7 < length [2, 0x11, 0x22, 0x33, 0x44, 0x55, 0x66, 0xC8, 1, 2 :: byte]
   \<and> process_dev (PStr ''AA:BB:CC'')
         (PBytes [2, 0x11, 0x22, 0x33, 0x44, 0x55, 0x66, 0xC8, 1, 2]) init_scanner =
       (None, queues_put first_item init_scanner)
   \<and> process_dev (PStr ''AA:BB:CC'')
         (PList [PInt 2, PStr ''112233445566'', PInt (- 60), PStr ''0304'']) init_scanner =
       (None, queues_put second_item init_scanner)
   \<and> (\<exists>ys. queues_put second_item init_scanner =
              queues_put \<lparr>gateway_id = PStr ''AA:BB:CC'', device = PList ys\<rparr> init_scanner
            \<and> ys ! 2 = PInt (- 60))"
proof -
  let ?data = "[2, 0x11, 0x22, 0x33, 0x44, 0x55, 0x66, 0xC8, 1, 2 :: byte]"
  let ?xs = "[PInt 2, PStr ''112233445566'', PInt (- 60), PStr ''0304'']"
  have len: "7 < length ?data" by simp
  have mac: "bytes_hex (take 6 (drop 1 ?data)) = ''112233445566''" by code_simp
  have norm: "normalize_list_dev (PList ?xs) =
      Inr (PList [PInt 2, PStr ''112233445566'', PInt (- 60), PBytes [3, 4]])"
    by code_simp
  have run: "process_dev (PStr ''AA:BB:CC'') (PList ?xs) init_scanner =
      (None, queues_put second_item init_scanner)"
    by (simp add: process_dev_def norm second_item_def del: normalize_list_dev.simps)
  from rssi_normalization [of ?data "PStr ''AA:BB:CC''" init_scanner ?xs
      "queues_put second_item init_scanner"] len run mac
  show ?thesis by (auto simp add: first_item_def)
qed

text \<open>
  Claim C7, as stated, fails for the list form: line 113 only lowercases the MAC and
  checks nothing. A list entry whose MAC is written with colons,
  \<^verbatim>\<open>AA:BB:CC:DD:EE:FF\<close>, is queued with the MAC \<^verbatim>\<open>aa:bb:cc:dd:ee:ff\<close>,
  which is no hexadecimal string.
\<close>

theorem mac_lowercase_hex_counterexample:
  "normalize_list_dev
     (PList [PInt 2, PStr ''AA:BB:CC:DD:EE:FF'', PInt (- 56), PStr ''0102'']) =
     Inr (PList [PInt 2, PStr ''aa:bb:cc:dd:ee:ff'', PInt (- 56), PBytes [1, 2]])
   \<and> \<not> list_all lower_hex_char ''aa:bb:cc:dd:ee:ff''
   \<and> process_dev (PStr ''AA:BB:CC'')
         (PList [PInt 2, PStr ''AA:BB:CC:DD:EE:FF'', PInt (- 56), PStr ''0102''])
         init_scanner =
       (None,
        queues_put
          \<lparr>gateway_id = PStr ''AA:BB:CC'',
             device = PList [PInt 2, PStr ''aa:bb:cc:dd:ee:ff'', PInt (- 56), PBytes [1, 2]]\<rparr>
          init_scanner)"
proof -
  have n: "normalize_list_dev
     (PList [PInt 2, PStr ''AA:BB:CC:DD:EE:FF'', PInt (- 56), PStr ''0102'']) =
     Inr (PList [PInt 2, PStr ''aa:bb:cc:dd:ee:ff'', PInt (- 56), PBytes [1, 2]])"
    by code_simp
  have h: "\<not> list_all lower_hex_char ''aa:bb:cc:dd:ee:ff''"
    by code_simp
  have q: "process_dev (PStr ''AA:BB:CC'')
         (PList [PInt 2, PStr ''AA:BB:CC:DD:EE:FF'', PInt (- 56), PStr ''0102''])
         init_scanner =
       (None,
        queues_put
          \<lparr>gateway_id = PStr ''AA:BB:CC'',
             device = PList [PInt 2, PStr ''aa:bb:cc:dd:ee:ff'', PInt (- 56), PBytes [1, 2]]\<rparr>
          init_scanner)"
    by (simp add: process_dev_def n del: normalize_list_dev.simps)
  show ?thesis by (intro conjI n h q)
qed

text \<open>
  Claim C7, amended. For a binary entry of at least eight bytes the MAC of the record
  is the hexadecimal text of bytes 1 to 6: twelve characters, all lowercase hexadecimal
  digits, and read back by \<^verbatim>\<open>bytes.fromhex\<close> they are those six bytes. For a list
  entry that is normalised and whose MAC is a string, the MAC of the record is that
  string lowercased, whatever it holds; it consists of lowercase hexadecimal digits
  whenever the string consists of hexadecimal digits, in either case.
\<close>

theorem mac_lowercase_hex:
  "(7 < length data \<longrightarrow>
      (\<exists>t r adv. convert_dev_to_dict data =
          Inr (PList [t, PStr (bytes_hex (take 6 (drop 1 data))), r, adv]))
      \<and> length (bytes_hex (take 6 (drop 1 data))) = 12
      \<and> list_all lower_hex_char (bytes_hex (take 6 (drop 1 data)))
      \<and> fromhex_str (bytes_hex (take 6 (drop 1 data))) = Some (take 6 (drop 1 data)))
   \<and> (normalize_list_dev (PList xs) = Inr d \<and> xs ! 1 = PStr m \<longrightarrow>
        (\<exists>ys. d = PList ys \<and> length ys = length xs \<and> ys ! 1 = PStr (map lower_char m))
        \<and> (list_all hex_char m \<longrightarrow> list_all lower_hex_char (map lower_char m)))"
proof (intro conjI impI)
  assume len: "7 < length data"
  show "\<exists>t r adv. convert_dev_to_dict data =
          Inr (PList [t, PStr (bytes_hex (take 6 (drop 1 data))), r, adv])"
    by (simp add: convert_dev_to_dict_ok [OF len])
  show "length (bytes_hex (take 6 (drop 1 data))) = 12"
    using len by (simp add: length_bytes_hex)
  show "list_all lower_hex_char (bytes_hex (take 6 (drop 1 data)))"
    by (rule lower_hex_bytes_hex)
  show "fromhex_str (bytes_hex (take 6 (drop 1 data))) = Some (take 6 (drop 1 data))"
    by (rule fromhex_bytes_hex)
next
  assume a: "normalize_list_dev (PList xs) = Inr d \<and> xs ! 1 = PStr m"
  then have d: "normalize_list_dev (PList xs) = Inr d" and m: "xs ! 1 = PStr m"
    by simp_all
  from normalize_list_dev_shape [OF d] obtain m' adv where
    low: "py_lower (xs ! 1) = Inr m'" and len: "3 < length xs"
    and shape: "d = PList (xs[1 := m', 3 := adv])" by blast
  from low m have m': "m' = PStr (map lower_char m)" by simp
  show "\<exists>ys. d = PList ys \<and> length ys = length xs \<and> ys ! 1 = PStr (map lower_char m)"
    using shape m' len by simp
next
  assume "list_all hex_char m"
  then show "list_all lower_hex_char (map lower_char m)"
    by (induction m) (simp_all add: lower_hex_lower_char)
qed

theorem mac_lowercase_hex_witness:
  "7 < length [2, 0xAA, 0xBB, 0xCC, 0xDD, 0xEE, 0xFF, 0xC8, 1, 2 :: byte]
   \<and> convert_dev_to_dict [2, 0xAA, 0xBB, 0xCC, 0xDD, 0xEE, 0xFF, 0xC8, 1, 2] =
       Inr (PList [PInt 2, PStr ''aabbccddeeff'', PInt (- 56), PBytes [1, 2]])
   \<and> list_all lower_hex_char ''aabbccddeeff''
   \<and> list_all hex_char ''AABBccDDEEFF''
   \<and> normalize_list_dev (PList [PInt 2, PStr ''AABBccDDEEFF'', PInt (- 56), PStr ''0102'']) =
       Inr (PList [PInt 2, PStr ''aabbccddeeff'', PInt (- 56), PBytes [1, 2]])"
proof -
  let ?data = "[2, 0xAA, 0xBB, 0xCC, 0xDD, 0xEE, 0xFF, 0xC8, 1, 2 :: byte]"
  let ?xs = "[PInt 2, PStr ''AABBccDDEEFF'', PInt (- 56), PStr ''0102'']"
  let ?d = "PList [PInt 2, PStr ''aabbccddeeff'', PInt (- 56), PBytes [1, 2]]"
  have len: "7 < length ?data" by simp
  have mac: "bytes_hex (take 6 (drop 1 ?data)) = ''aabbccddeeff''" by code_simp
  have conv: "convert_dev_to_dict ?data = Inr ?d" by code_simp
  have norm: "normalize_list_dev (PList ?xs) = Inr ?d" by code_simp
  have hex: "list_all hex_char ''AABBccDDEEFF''" by code_simp
  have low: "map lower_char ''AABBccDDEEFF'' = ''aabbccddeeff''" by code_simp
  from mac_lowercase_hex [of ?data ?xs ?d "''AABBccDDEEFF''"] len norm hex mac conv low
  show ?thesis by simp
qed




section \<open>The processing loop\<close>

lemma async_on_advertisement_fail:
  "parse_data E (device data) = Inl e \<Longrightarrow> async_on_advertisement E data s = (Some e, s)"
  by (simp add: async_on_advertisement_def)

lemma async_on_advertisement_ok:
  "parse_data E (device data) = Inr (dev, advertisement) \<Longrightarrow>
   async_on_advertisement E data s =
     (None,
      s\<lparr>clock := Suc (clock s),
        discovered_device_advertisement_datas :=
          (discovered_device_advertisement_datas s)(dev_address dev \<mapsto> (dev, advertisement)),
        discovered_device_timestamps :=
          (discovered_device_timestamps s)(dev_address dev \<mapsto> monotonic E (clock s)),
        callback_calls :=
          callback_calls s @ [event_of E data dev advertisement (monotonic E (clock s))]\<rparr>)"
  by (simp add: async_on_advertisement_def Let_def event_of_def)

lemma run_iteration_empty: "queue s = [] \<Longrightarrow> run_iteration E s = (None, s)"
  by (simp add: run_iteration_def wait_for_get_def)

lemma run_iteration_item:
  "queue s = data # rest \<Longrightarrow>
   run_iteration E s =
     (case async_on_advertisement E data (s\<lparr>queue := rest\<rparr>) of
        (None, s') \<Rightarrow> (None, s')
      | (Some e, s') \<Rightarrow> if e = TimeoutError then (None, s') else (Some e, s'))"
  by (simp add: run_iteration_def wait_for_get_def)

text \<open>
  Claim C1, as stated, fails: with a record that the parser rejects at the front of
  the queue and a good record behind it, the loop ends with the error of the parser;
  nothing is logged, and the good record stays in the queue and is never dispatched.
\<close>

theorem parse_failure_counterexample:
  "parse_data sample_env (device bad_item) = Inl ParseError
   \<and> fst (async_run sample_env 2 (init_scanner\<lparr>queue := [bad_item, first_item]\<rparr>)) =
       Some ParseError
   \<and> queue (snd (async_run sample_env 2 (init_scanner\<lparr>queue := [bad_item, first_item]\<rparr>))) =
       [first_item]
   \<and> callback_calls
         (snd (async_run sample_env 2 (init_scanner\<lparr>queue := [bad_item, first_item]\<rparr>))) = []
   \<and> logged (snd (async_run sample_env 2 (init_scanner\<lparr>queue := [bad_item, first_item]\<rparr>))) = []"
proof -
  have p: "parse_data sample_env (device bad_item) = Inl ParseError"
    by (simp add: sample_env_def bad_item_def)
  have "async_run sample_env (Suc (Suc 0)) (init_scanner\<lparr>queue := [bad_item, first_item]\<rparr>) =
      (Some ParseError, init_scanner\<lparr>queue := [first_item]\<rparr>)"
    by (simp add: run_iteration_item async_on_advertisement_fail [OF p])
  then show ?thesis
    by (simp add: p numeral_2_eq_2 init_scanner_def)
qed

text \<open>
  Claim C1, amended. When the parser raises \<open>e\<close> on the record at the front of the
  queue, and \<open>e\<close> is not the timeout that the loop catches, the pass dispatches no
  event, writes no log record and leaves both dictionaries as they were; the error is
  not caught, so the loop ends with \<open>e\<close> and the records behind stay in the queue.
\<close>

theorem parse_failure_ends_loop:
  assumes "queue s = item # rest"
    and "parse_data E (device item) = Inl e"
    and "e \<noteq> TimeoutError"
  shows "async_run E (Suc n) s = (Some e, s\<lparr>queue := rest\<rparr>)"
  using assms by (simp add: run_iteration_item async_on_advertisement_fail)

theorem parse_failure_ends_loop_witness:
  "queue (init_scanner\<lparr>queue := [bad_item, first_item]\<rparr>) = bad_item # [first_item]
   \<and> parse_data sample_env (device bad_item) = Inl ParseError
   \<and> ParseError \<noteq> TimeoutError
   \<and> async_run sample_env (Suc 5) (init_scanner\<lparr>queue := [bad_item, first_item]\<rparr>) =
       (Some ParseError, init_scanner\<lparr>queue := [first_item]\<rparr>)"
proof -
  have q: "queue (init_scanner\<lparr>queue := [bad_item, first_item]\<rparr>) = bad_item # [first_item]"
    by simp
  have p: "parse_data sample_env (device bad_item) = Inl ParseError"
    by (simp add: sample_env_def bad_item_def)
  have t: "ParseError \<noteq> TimeoutError" by simp
  from parse_failure_ends_loop [OF q p t, of 5] q p t show ?thesis by simp
qed

section \<open>The device cache and the dispatched events\<close>

lemma grows_refl: "grows s s"
  by (simp add: grows_def)

lemma grows_trans:
  assumes "grows s s1" and "grows s1 s2"
  shows "grows s s2"
proof -
  from assms obtain new1 new2 where
    n1: "callback_calls s1 = callback_calls s @ new1" "list_all info_connectable new1" and
    n2: "callback_calls s2 = callback_calls s1 @ new2" "list_all info_connectable new2"
    by (auto simp: grows_def)
  have "callback_calls s2 = callback_calls s @ (new1 @ new2)"
    "list_all info_connectable (new1 @ new2)"
    using n1 n2 by simp_all
  then have "\<exists>new. callback_calls s2 = callback_calls s @ new \<and> list_all info_connectable new"
    by blast
  moreover have "dom (discovered_device_advertisement_datas s)
      \<subseteq> dom (discovered_device_advertisement_datas s2)"
    using assms unfolding grows_def by (meson subset_trans)
  moreover have "dom (discovered_device_timestamps s) \<subseteq> dom (discovered_device_timestamps s2)"
    using assms unfolding grows_def by (meson subset_trans)
  ultimately show ?thesis by (simp add: grows_def)
qed

lemma async_on_advertisement_grows: "grows s (snd (async_on_advertisement E data s))"
proof (cases "parse_data E (device data)")
  case (Inl e)
  then show ?thesis by (simp add: async_on_advertisement_fail grows_refl)
next
  case (Inr p)
  obtain dev adv where p: "p = (dev, adv)" by (cases p)
  from Inr p show ?thesis
    by (auto simp: async_on_advertisement_ok grows_def event_of_def)
qed

lemma grows_pop: "grows s (s\<lparr>queue := rest\<rparr>)"
  by (simp add: grows_def)

lemma run_iteration_grows: "grows s (snd (run_iteration E s))"
proof (cases "queue s")
  case Nil
  then show ?thesis by (simp add: run_iteration_empty grows_refl)
next
  case (Cons data rest)
  obtain r1 s1 where o: "async_on_advertisement E data (s\<lparr>queue := rest\<rparr>) = (r1, s1)"
    by (cases "async_on_advertisement E data (s\<lparr>queue := rest\<rparr>)")
  have "grows (s\<lparr>queue := rest\<rparr>) s1"
    using async_on_advertisement_grows [of "s\<lparr>queue := rest\<rparr>" E data] o by simp
  then have "grows s s1" by (rule grows_trans [OF grows_pop])
  moreover have "snd (run_iteration E s) = s1"
    using Cons o by (cases r1) (simp_all add: run_iteration_item)
  ultimately show ?thesis by simp
qed

lemma async_run_grows: "grows s (snd (async_run E n s))"
proof (induction n arbitrary: s)
  case 0
  then show ?case by (simp add: grows_refl)
next
  case (Suc n)
  obtain r1 s1 where o: "run_iteration E s = (r1, s1)" by (cases "run_iteration E s")
  have g: "grows s s1" using run_iteration_grows [of s E] o by simp
  show ?case
  proof (cases r1)
    case None
    with o have "snd (async_run E (Suc n) s) = snd (async_run E n s1)" by simp
    with grows_trans [OF g Suc.IH [of s1]] show ?thesis by simp
  next
    case (Some e)
    with o g show ?thesis by simp
  qed
qed

text \<open>The message path changes the queue and the log, nothing else.\<close>

lemma same_cache_refl: "same_cache s s"
  by (simp add: same_cache_def)

lemma same_cache_trans: "same_cache s s1 \<Longrightarrow> same_cache s1 s2 \<Longrightarrow> same_cache s s2"
  by (simp add: same_cache_def)

lemma same_cache_log: "same_cache s (log_record lvl msg s)"
  by (simp add: same_cache_def log_record_def)

lemma same_cache_put: "same_cache s (queues_put item s)"
  by (simp add: same_cache_def queues_put_def)

lemma process_dev_same_cache: "same_cache s (snd (process_dev gw dev s))"
  by (cases dev) (simp_all add: process_dev_def same_cache_refl same_cache_put split: sum.splits)

lemma process_devices_same_cache: "same_cache s (snd (process_devices gw devs s))"
proof (induction devs arbitrary: s)
  case Nil
  then show ?case by (simp add: same_cache_refl)
next
  case (Cons dev devs)
  obtain r1 s1 where o: "process_dev gw dev s = (r1, s1)" by (cases "process_dev gw dev s")
  have 1: "same_cache s s1" using process_dev_same_cache [of s gw dev] o by simp
  show ?case
  proof (cases r1)
    case None
    with o have "snd (process_devices gw (dev # devs) s) = snd (process_devices gw devs s1)"
      by simp
    with same_cache_trans [OF 1 Cons.IH [of s1]] show ?thesis by simp
  next
    case (Some e)
    with o 1 show ?thesis by simp
  qed
qed

lemma async_process_discovery_data_same_cache:
  "same_cache s (snd (async_process_discovery_data data s))"
  by (simp add: async_process_discovery_data_def same_cache_refl process_devices_same_cache
      split: sum.splits)

lemma try_unpack_same_cache: "same_cache s (snd (try_unpack E payload s))"
  by (simp add: try_unpack_def same_cache_refl async_process_discovery_data_same_cache
      split: sum.splits)

lemma json_fallback_same_cache: "same_cache s (snd (json_fallback E payload s))"
proof -
  let ?s1 = "log_record DEBUG ''Msgpack cannot decode data: %s, try json instead'' s"
  let ?s2 = "log_record DEBUG ''JSON data: %s'' ?s1"
  have 1: "same_cache s ?s1" by (rule same_cache_log)
  have 2: "same_cache s ?s2" by (rule same_cache_trans [OF 1 same_cache_log])
  have 3: "same_cache s (snd (async_process_discovery_data data ?s2))" for data
    by (rule same_cache_trans [OF 2 async_process_discovery_data_same_cache])
  show ?thesis
    by (simp add: json_fallback_def Let_def 1 3 split: sum.splits)
qed

lemma async_message_received_same_cache:
  "same_cache s (snd (async_message_received E payload s))"
proof -
  obtain r1 s1 where o: "try_unpack E payload s = (r1, s1)" by (cases "try_unpack E payload s")
  have 1: "same_cache s s1" using try_unpack_same_cache [of s E payload] o by simp
  have 2: "same_cache s (snd (json_fallback E payload s1))"
    by (rule same_cache_trans [OF 1 json_fallback_same_cache])
  have 3: "same_cache s (log_record DEBUG ''Cannot decode data: %s'' s1)"
    by (rule same_cache_trans [OF 1 same_cache_log])
  show ?thesis
    by (cases r1) (simp_all add: async_message_received_def o 1 2 3)
qed

lemma run_iteration_ok:
  assumes "queue s = data # rest" and "parse_data E (device data) = Inr (dev, advertisement)"
  shows "run_iteration E s =
     (None,
      s\<lparr>queue := rest,
        clock := Suc (clock s),
        discovered_device_advertisement_datas :=
          (discovered_device_advertisement_datas s)(dev_address dev \<mapsto> (dev, advertisement)),
        discovered_device_timestamps :=
          (discovered_device_timestamps s)(dev_address dev \<mapsto> monotonic E (clock s)),
        callback_calls :=
          callback_calls s @ [event_of E data dev advertisement (monotonic E (clock s))]\<rparr>)"
  using assms by (simp add: run_iteration_item async_on_advertisement_ok)

lemma async_run_two:
  assumes "queue s = i1 # i2 # rest"
    and "parse_data E (device i1) = Inr (d1, a1)"
    and "parse_data E (device i2) = Inr (d2, a2)"
  shows "async_run E 2 s =
     (None,
      s\<lparr>queue := rest,
        clock := Suc (Suc (clock s)),
        discovered_device_advertisement_datas :=
          (discovered_device_advertisement_datas s)
            (dev_address d1 \<mapsto> (d1, a1), dev_address d2 \<mapsto> (d2, a2)),
        discovered_device_timestamps :=
          (discovered_device_timestamps s)
            (dev_address d1 \<mapsto> monotonic E (clock s),
             dev_address d2 \<mapsto> monotonic E (Suc (clock s))),
        callback_calls :=
          callback_calls s @ [event_of E i1 d1 a1 (monotonic E (clock s)),
                              event_of E i2 d2 a2 (monotonic E (Suc (clock s)))]\<rparr>)"
proof -
  let ?s1 = "s\<lparr>queue := i2 # rest,
        clock := Suc (clock s),
        discovered_device_advertisement_datas :=
          (discovered_device_advertisement_datas s)(dev_address d1 \<mapsto> (d1, a1)),
        discovered_device_timestamps :=
          (discovered_device_timestamps s)(dev_address d1 \<mapsto> monotonic E (clock s)),
        callback_calls := callback_calls s @ [event_of E i1 d1 a1 (monotonic E (clock s))]\<rparr>"
  have 1: "run_iteration E s = (None, ?s1)"
    by (rule run_iteration_ok [OF assms(1) assms(2)])
  have q: "queue ?s1 = i2 # rest" by simp
  note 2 = run_iteration_ok [OF q assms(3)]
  show ?thesis
    by (simp add: numeral_2_eq_2 1 2)
qed

text \<open>The sample parser on the two good records, and the loop on the two of them.\<close>

lemma sample_parse_first:
  "parse_data sample_env (device first_item) =
     Inr (\<lparr>dev_address = ''112233445566'', dev_name = Some ''tag 112233445566''\<rparr>,
          \<lparr>adv_local_name = None, adv_rssi = - 56, adv_manufacturer_data = [(1, [2])],
           adv_service_data = [], adv_service_uuids = []\<rparr>)"
  by (simp add: sample_env_def first_item_def)

lemma sample_parse_second:
  "parse_data sample_env (device second_item) =
     Inr (\<lparr>dev_address = ''112233445566'', dev_name = Some ''tag 112233445566''\<rparr>,
          \<lparr>adv_local_name = None, adv_rssi = - 60, adv_manufacturer_data = [(3, [4])],
           adv_service_data = [], adv_service_uuids = []\<rparr>)"
  by (simp add: sample_env_def second_item_def)

lemma sample_clock_readings:
  "monotonic sample_env 0 = 100" "monotonic sample_env (Suc 0) = 101"
  by (simp_all add: sample_env_def sample_clock_def)

lemma two_queued_fields:
  "queue two_queued = first_item # second_item # []"
  "clock two_queued = 0"
  "callback_calls two_queued = []"
  "discovered_device_advertisement_datas two_queued = Map.empty"
  "discovered_device_timestamps two_queued = Map.empty"
  by (simp_all add: two_queued_def init_scanner_def)

text \<open>
  Claim C5. Two queue items at the front of the queue whose records the parser turns
  into the same device address: after two passes of the loop the cache holds, for that
  address, what the parser returned for the second item and the clock reading of the
  second pass, and the callback has been called twice, once for each item, in order.
\<close>

theorem last_write_wins:
  assumes "queue s = i1 # i2 # rest"
    and "parse_data E (device i1) = Inr (d1, a1)"
    and "parse_data E (device i2) = Inr (d2, a2)"
    and "dev_address d1 = dev_address d2"
    and "async_run E 2 s = (r, s')"
  shows "r = None
    \<and> discovered_device_advertisement_datas s' (dev_address d2) = Some (d2, a2)
    \<and> discovered_device_timestamps s' (dev_address d2) = Some (monotonic E (Suc (clock s)))
    \<and> callback_calls s' =
        callback_calls s @ [event_of E i1 d1 a1 (monotonic E (clock s)),
                            event_of E i2 d2 a2 (monotonic E (Suc (clock s)))]
    \<and> length (callback_calls s') = length (callback_calls s) + 2
    \<and> queue s' = rest"
  using assms(5) unfolding async_run_two [OF assms(1-3)]
  by (auto simp: assms(4))

theorem last_write_wins_witness:
  "queue two_queued = first_item # second_item # []
   \<and> fst (async_run sample_env 2 two_queued) = None
   \<and> map_option (adv_rssi \<circ> snd)
        (discovered_device_advertisement_datas (snd (async_run sample_env 2 two_queued))
           ''112233445566'') = Some (- 60)
   \<and> discovered_device_timestamps (snd (async_run sample_env 2 two_queued)) ''112233445566'' =
       Some 101
   \<and> map info_rssi (callback_calls (snd (async_run sample_env 2 two_queued))) = [- 56, - 60]
   \<and> map info_time (callback_calls (snd (async_run sample_env 2 two_queued))) = [100, 101]"
proof -
  have a: "dev_address \<lparr>dev_address = ''112233445566'', dev_name = Some ''tag 112233445566''\<rparr> =
      dev_address \<lparr>dev_address = ''112233445566'', dev_name = Some ''tag 112233445566''\<rparr>"
    by simp
  have run: "async_run sample_env 2 two_queued =
      (fst (async_run sample_env 2 two_queued), snd (async_run sample_env 2 two_queued))"
    by simp
  from last_write_wins [OF two_queued_fields(1) sample_parse_first sample_parse_second a run]
  show ?thesis
    by (simp add: two_queued_fields sample_clock_readings event_of_def)
qed

text \<open>
  Claim C9. Neither path removes an entry of the device cache: after any number of
  passes of the processing loop, and after one call of \<^verbatim>\<open>async_on_advertisement\<close>,
  every address that was a key of the two dictionaries still is; the message path
  leaves both dictionaries as they are.
\<close>

theorem cache_never_shrinks:
  "dom (discovered_device_advertisement_datas s)
     \<subseteq> dom (discovered_device_advertisement_datas (snd (async_run E n s)))
   \<and> dom (discovered_device_timestamps s)
     \<subseteq> dom (discovered_device_timestamps (snd (async_run E n s)))
   \<and> dom (discovered_device_advertisement_datas s)
     \<subseteq> dom (discovered_device_advertisement_datas (snd (async_on_advertisement E data s)))
   \<and> dom (discovered_device_timestamps s)
     \<subseteq> dom (discovered_device_timestamps (snd (async_on_advertisement E data s)))
   \<and> discovered_device_advertisement_datas (snd (async_message_received E payload s)) =
       discovered_device_advertisement_datas s
   \<and> discovered_device_timestamps (snd (async_message_received E payload s)) =
       discovered_device_timestamps s"
  using async_run_grows [of s E n] async_on_advertisement_grows [of s E data]
    async_message_received_same_cache [of s E payload]
  by (simp add: grows_def same_cache_def)

text \<open>
  Claim C10. The events that the processing loop hands to the callback, in any number
  of passes, all have \<^verbatim>\<open>connectable\<close> true, while a scanner that \<^verbatim>\<open>async_start\<close>
  registers is registered with \<^verbatim>\<open>connectable=False\<close>.
\<close>

theorem events_connectable:
  "(\<exists>new. callback_calls (snd (async_run E n s)) = callback_calls s @ new
          \<and> list_all info_connectable new)
   \<and> (async_start E unique_id = Inr reg \<longrightarrow> \<not> reg_connectable reg)"
  using async_run_grows [of s E n]
  by (auto simp: grows_def async_start_def split: if_splits)

theorem events_connectable_witness:
  "(\<exists>new. callback_calls (snd (async_run sample_env 2 two_queued)) = callback_calls two_queued @ new
          \<and> list_all info_connectable new)
   \<and> map info_connectable (callback_calls (snd (async_run sample_env 2 two_queued))) = [True, True]
   \<and> async_start sample_env (PStr ''entry'') =
       Inr \<lparr>reg_source = ''entry'', reg_connectable = False\<rparr>
   \<and> \<not> reg_connectable \<lparr>reg_source = ''entry'', reg_connectable = False\<rparr>"
proof -
  have st: "async_start sample_env (PStr ''entry'') =
      Inr \<lparr>reg_source = ''entry'', reg_connectable = False\<rparr>"
    by (simp add: async_start_def sample_env_def)
  have ev: "map info_connectable (callback_calls (snd (async_run sample_env 2 two_queued))) =
      [True, True]"
    by (simp add: async_run_two [OF two_queued_fields(1) sample_parse_first sample_parse_second]
        two_queued_fields event_of_def)
  from events_connectable [of sample_env 2 two_queued "PStr ''entry''"
      "\<lparr>reg_source = ''entry'', reg_connectable = False\<rparr>"] st ev
  show ?thesis by simp
qed

text \<open>
  Claim C8. The name of the dispatched event is the advertised local name when there
  is one (not \<^verbatim>\<open>None\<close> and not empty), else the name of the device, which is the
  device that the cache now holds for the address, when there is one, else the address.
\<close>

theorem name_fallback:
  assumes "parse_data E (device data) = Inr (dev, adv)"
    and "async_on_advertisement E data s = (r, s')"
  shows "r = None
    \<and> length (callback_calls s') = Suc (length (callback_calls s))
    \<and> discovered_device_advertisement_datas s' (dev_address dev) = Some (dev, adv)
    \<and> info_name (last (callback_calls s')) =
        (if adv_local_name adv \<noteq> None \<and> adv_local_name adv \<noteq> Some ''''
           then the (adv_local_name adv)
         else if dev_name dev \<noteq> None \<and> dev_name dev \<noteq> Some ''''
           then the (dev_name dev)
         else dev_address dev)"
  using assms(2) unfolding async_on_advertisement_ok [OF assms(1)]
  by (auto simp: event_of_def name_or_def truthy_def split: option.splits)

theorem name_fallback_witness:
  "fst (async_on_advertisement sample_env first_item init_scanner) = None
   \<and> map info_name (callback_calls (snd (async_on_advertisement sample_env first_item init_scanner)))
       = [''tag 112233445566'']"
proof -
  have run: "async_on_advertisement sample_env first_item init_scanner =
      (fst (async_on_advertisement sample_env first_item init_scanner),
       snd (async_on_advertisement sample_env first_item init_scanner))"
    by simp
  have c: "callback_calls (snd (async_on_advertisement sample_env first_item init_scanner)) =
      [last (callback_calls (snd (async_on_advertisement sample_env first_item init_scanner)))]"
    by (simp add: async_on_advertisement_ok [OF sample_parse_first] init_scanner_def)
  from name_fallback [OF sample_parse_first run] show ?thesis
    by (subst c) simp
qed

section \<open>The message path and the log\<close>

















text \<open>
  Claim C2 against the code. When msgpack reports bytes left over and
  \<^verbatim>\<open>json.loads\<close> then raises \<open>e\<close> (a \<^verbatim>\<open>JSONDecodeError\<close>, say), the handler has
  written one debug record, has queued nothing, and raises \<open>e\<close>: the call of
  \<^verbatim>\<open>json.loads\<close> stands in an \<^verbatim>\<open>except\<close> clause, out of reach of the clause
  \<^verbatim>\<open>except ValueError\<close> beside it. That clause, where it is reached (msgpack raising
  another \<^verbatim>\<open>ValueError\<close>), raises \<^verbatim>\<open>NameError\<close> for the unbound name
  \<^verbatim>\<open>payload\<close>.
\<close>

theorem json_value_error_escapes:
  "(unpackb E payload = Inl ExtraData \<and> loads E payload = Inl e \<longrightarrow>
      async_message_received E payload s =
        (Some e, log_record DEBUG ''Msgpack cannot decode data: %s, try json instead'' s))
   \<and> (unpackb E payload = Inl e \<and> is_ValueError e \<and> e \<noteq> ExtraData \<and> e \<noteq> UnicodeDecodeError \<longrightarrow>
        async_message_received E payload s = (Some NameError, s))"
  by (simp add: async_message_received_def try_unpack_def json_fallback_def Let_def)

lemma sample_decoders:
  "unpackb sample_env sample_msgpack = Inr sample_report"
  "unpackb sample_env sample_json = Inl ExtraData"
  "loads sample_env sample_json = Inr sample_report"
  "unpackb sample_env broken_json = Inl ExtraData"
  "loads sample_env broken_json = Inl JSONDecodeError"
  "unpackb sample_env broken_msgpack = Inl (OtherValueError ''FormatError'')"
  by (simp_all add: sample_env_def sample_unpackb_def sample_loads_def sample_msgpack_def
      sample_json_def broken_json_def broken_msgpack_def)

theorem json_value_error_escapes_witness:
  "unpackb sample_env broken_json = Inl ExtraData
   \<and> loads sample_env broken_json = Inl JSONDecodeError
   \<and> is_ValueError JSONDecodeError
   \<and> async_message_received sample_env broken_json init_scanner =
       (Some JSONDecodeError,
        log_record DEBUG ''Msgpack cannot decode data: %s, try json instead'' init_scanner)
   \<and> unpackb sample_env broken_msgpack = Inl (OtherValueError ''FormatError'')
   \<and> async_message_received sample_env broken_msgpack init_scanner = (Some NameError, init_scanner)"
proof -
  have 1: "async_message_received sample_env broken_json init_scanner =
       (Some JSONDecodeError,
        log_record DEBUG ''Msgpack cannot decode data: %s, try json instead'' init_scanner)"
    using json_value_error_escapes [of sample_env broken_json JSONDecodeError init_scanner]
    by (simp add: sample_decoders)
  have 2: "async_message_received sample_env broken_msgpack init_scanner =
       (Some NameError, init_scanner)"
    using json_value_error_escapes
      [of sample_env broken_msgpack "OtherValueError ''FormatError''" init_scanner]
    by (simp add: sample_decoders)
  show ?thesis by (simp add: 1 2 sample_decoders)
qed




end
